theory Spec2Isabelle
  imports Main "HOL-Library.Monad_Syntax"
begin

section \<open>Edmonds' blossom algorithm of \<^verbatim>\<open>snippets/blossom_algo.py\<close>\<close>

text \<open>
  The Python function \<^verbatim>\<open>max_matching(adj)\<close> works on six arrays of length
  \<open>n = len(adj)\<close> shared by its nested functions. Vertices, parents, bases and matching
  partners are Python integers, with \<open>-1\<close> as the "none" sentinel, so they are modelled as
  \<open>int\<close> and the arrays as \<open>int list\<close> or \<open>bool list\<close>.

  Every array access of the source goes through \<open>idx\<close> (a read) or \<open>upd\<close> (a store), which
  follow Python's list indexing: an index in \<open>[0, n)\<close> is the position itself, an index in
  \<open>[-n, 0)\<close> counts from the end, anything else raises \<^verbatim>\<open>IndexError\<close>. All functions
  return an \<open>option\<close>: \<open>None\<close> means that the call does not return normally (it raises
  \<^verbatim>\<open>IndexError\<close>, or a loop runs forever).
\<close>

subsection \<open>Python list indexing\<close>

definition idx :: "'a list \<Rightarrow> int \<Rightarrow> 'a option" where
  "idx xs i =
     (let n = int (length xs) in
      if 0 \<le> i \<and> i < n then Some (xs ! nat i)
      else if - n \<le> i \<and> i < 0 then Some (xs ! nat (n + i))
      else None)"

definition upd :: "'a list \<Rightarrow> int \<Rightarrow> 'a \<Rightarrow> 'a list option" where
  "upd xs i x =
     (let n = int (length xs) in
      if 0 \<le> i \<and> i < n then Some (xs[nat i := x])
      else if - n \<le> i \<and> i < 0 then Some (xs[nat (n + i) := x])
      else None)"

text \<open>
  Two places of the source index an array with a value that may be the sentinel \<open>-1\<close>:
  \<^verbatim>\<open>p[match[b]]\<close> in the second loop of \<^verbatim>\<open>lca\<close>, and the flip loop of
  \<^verbatim>\<open>find_path\<close> when \<^verbatim>\<open>p[curr]\<close> is \<open>-1\<close>. Python reads or writes the last
  element there. To state that a run never does this, the model has a checking mode: under
  \<open>Python\<close> the code runs as written, under \<open>Strict_lca\<close> (\<open>Strict_flip\<close>) a run that
  reaches the first (second) place with the sentinel stops with \<open>None\<close> instead.
\<close>

datatype mode = Python | Strict_lca | Strict_flip

subsection \<open>The shared arrays\<close>

record bstate =
  match :: "int list"
  p :: "int list"
  base :: "int list"
  q :: "int list"
  used :: "bool list"
  blossom :: "bool list"

subsection \<open>\<^verbatim>\<open>lca\<close>\<close>

text \<open>The first loop of \<^verbatim>\<open>lca(a, b)\<close>; \<open>up\<close> is the local array \<^verbatim>\<open>used_path\<close>.\<close>

partial_function (option) lca_up :: "bstate \<Rightarrow> bool list \<Rightarrow> int \<Rightarrow> bool list option" where
  "lca_up s up a =
     do {
       a1 \<leftarrow> idx (base s) a;
       up1 \<leftarrow> upd up a1 True;
       m \<leftarrow> idx (match s) a1;
       if m = -1 then Some up1
       else do {
         m' \<leftarrow> idx (match s) a1;
         a2 \<leftarrow> idx (p s) m';
         lca_up s up1 a2
       }
     }"

text \<open>The second loop of \<^verbatim>\<open>lca(a, b)\<close>.\<close>

partial_function (option) lca_down :: "mode \<Rightarrow> bstate \<Rightarrow> bool list \<Rightarrow> int \<Rightarrow> int option" where
  "lca_down md s up b =
     do {
       b1 \<leftarrow> idx (base s) b;
       f \<leftarrow> idx up b1;
       if f then Some b1
       else do {
         m \<leftarrow> idx (match s) b1;
         b2 \<leftarrow> (if md = Strict_lca \<and> m = -1 then None else idx (p s) m);
         lca_down md s up b2
       }
     }"

definition lca :: "mode \<Rightarrow> bstate \<Rightarrow> int \<Rightarrow> int \<Rightarrow> int option" where
  "lca md s a b =
     do {
       up \<leftarrow> lca_up s (replicate (length (match s)) False) a;
       lca_down md s up b
     }"

subsection \<open>\<^verbatim>\<open>mark_path\<close>\<close>

partial_function (option) mark_path :: "bstate \<Rightarrow> int \<Rightarrow> int \<Rightarrow> int \<Rightarrow> bstate option" where
  "mark_path s v b x =
     do {
       bv \<leftarrow> idx (base s) v;
       if bv \<noteq> b then
         do {
           bl1 \<leftarrow> upd (blossom s) bv True;
           mv \<leftarrow> idx (match s) v;
           bmv \<leftarrow> idx (base s) mv;
           bl2 \<leftarrow> upd bl1 bmv True;
           p' \<leftarrow> upd (p s) v x;
           x' \<leftarrow> idx (match s) v;
           v' \<leftarrow> idx p' x';
           mark_path (s\<lparr>blossom := bl2, p := p'\<rparr>) v' b x'
         }
       else Some s
     }"

subsection \<open>\<^verbatim>\<open>find_path\<close>\<close>

text \<open>
  The contraction loop \<^verbatim>\<open>for i in range(n): if blossom[base[i]]: ...\<close>, as a recursion
  over the indices still to visit.
\<close>

fun contract :: "int \<Rightarrow> nat list \<Rightarrow> bstate \<Rightarrow> bstate option" where
  "contract curbase [] s = Some s"
| "contract curbase (i # is) s =
     do {
       bi \<leftarrow> idx (base s) (int i);
       f \<leftarrow> idx (blossom s) bi;
       if f then
         do {
           base' \<leftarrow> upd (base s) (int i) curbase;
           ui \<leftarrow> idx (used s) (int i);
           if \<not> ui then
             do {
               used' \<leftarrow> upd (used s) (int i) True;
               contract curbase is (s\<lparr>base := base', used := used', q := q s @ [int i]\<rparr>)
             }
           else contract curbase is (s\<lparr>base := base'\<rparr>)
         }
       else contract curbase is s
     }"

text \<open>
  The flip loop \<^verbatim>\<open>while curr != -1: ...\<close> on the arrays \<^verbatim>\<open>p\<close> and
  \<^verbatim>\<open>match\<close>; it returns the new \<^verbatim>\<open>match\<close>.
\<close>

partial_function (option) flip :: "mode \<Rightarrow> int list \<Rightarrow> int list \<Rightarrow> int \<Rightarrow> int list option" where
  "flip md ps ms cur =
     (if cur \<noteq> -1 then
        do {
          prev \<leftarrow> idx ps cur;
          nxt \<leftarrow> (if prev \<noteq> -1 then idx ms prev
                  else if md = Strict_flip then None else Some (-1));
          ms1 \<leftarrow> upd ms cur prev;
          ms2 \<leftarrow> upd ms1 prev cur;
          flip md ps ms2 nxt
        }
      else Some ms)"

text \<open>
  The loop \<^verbatim>\<open>for u in adj[v]: ...\<close> of the search, over the neighbours still to
  visit. The result is \<open>(True, s)\<close> when the body has executed \<^verbatim>\<open>return True\<close>, and
  \<open>(False, s)\<close> when the loop has run to its end.
\<close>

fun scan :: "mode \<Rightarrow> int \<Rightarrow> int \<Rightarrow> int list \<Rightarrow> bstate \<Rightarrow> (bool \<times> bstate) option" where
  "scan md root v [] s = Some (False, s)"
| "scan md root v (u # us) s =
     do {
       bv \<leftarrow> idx (base s) v;
       bu \<leftarrow> idx (base s) u;
       skip \<leftarrow> (if bv = bu then Some True
                else do { mv \<leftarrow> idx (match s) v; Some (mv = u) });
       if skip then scan md root v us s
       else do {
         cyc \<leftarrow> (if u = root then Some True
                 else do {
                   mu \<leftarrow> idx (match s) u;
                   if mu \<noteq> -1 then do { pm \<leftarrow> idx (p s) mu; Some (pm \<noteq> -1) }
                   else Some False
                 });
         if cyc then
           do {
             curbase \<leftarrow> lca md s v u;
             s1 \<leftarrow> mark_path (s\<lparr>blossom := replicate (length (match s)) False\<rparr>) v curbase u;
             s2 \<leftarrow> mark_path s1 u curbase v;
             s3 \<leftarrow> contract curbase [0 ..< length (match s)] s2;
             scan md root v us s3
           }
         else do {
           pu \<leftarrow> idx (p s) u;
           if pu = -1 then
             do {
               p' \<leftarrow> upd (p s) u v;
               mu \<leftarrow> idx (match s) u;
               if mu = -1 then
                 do {
                   m' \<leftarrow> flip md p' (match s) u;
                   Some (True, s\<lparr>p := p', match := m'\<rparr>)
                 }
               else do {
                 used' \<leftarrow> upd (used s) mu True;
                 scan md root v us (s\<lparr>p := p', used := used', q := q s @ [mu]\<rparr>)
               }
             }
           else scan md root v us s
         }
       }
     }"

text \<open>The loop \<^verbatim>\<open>while q: v = q.popleft(); for u in adj[v]: ...\<close>.\<close>

partial_function (option) bfs :: "mode \<Rightarrow> int list list \<Rightarrow> int \<Rightarrow> bstate \<Rightarrow> (bool \<times> bstate) option" where
  "bfs md adj root s =
     (case q s of
        [] \<Rightarrow> Some (False, s)
      | v # rest \<Rightarrow>
          do {
            nb \<leftarrow> idx adj v;
            r \<leftarrow> scan md root v nb (s\<lparr>q := rest\<rparr>);
            if fst r then Some r else bfs md adj root (snd r)
          })"

definition find_path :: "mode \<Rightarrow> int list list \<Rightarrow> int \<Rightarrow> bstate \<Rightarrow> (bool \<times> bstate) option" where
  "find_path md adj root s =
     (let n = length adj in
      do {
        used' \<leftarrow> upd (replicate n False) root True;
        bfs md adj root
          (s\<lparr>used := used', p := replicate n (-1), base := map int [0 ..< n], q := [root]\<rparr>)
      })"

subsection \<open>\<^verbatim>\<open>max_matching\<close>\<close>

text \<open>The main loop \<^verbatim>\<open>for v in range(n): ...\<close>, with the counter \<^verbatim>\<open>res\<close>.\<close>

fun drive :: "mode \<Rightarrow> int list list \<Rightarrow> nat list \<Rightarrow> bstate \<times> int \<Rightarrow> (bstate \<times> int) option" where
  "drive md adj [] sr = Some sr"
| "drive md adj (v # vs) sr =
     do {
       mv \<leftarrow> idx (match (fst sr)) (int v);
       if mv = -1 then
         do {
           r \<leftarrow> find_path md adj (int v) (fst sr);
           drive md adj vs (snd r, if fst r then snd sr + 1 else snd sr)
         }
       else drive md adj vs sr
     }"

definition init_state :: "nat \<Rightarrow> bstate" where
  "init_state n =
     \<lparr>match = replicate n (-1), p = replicate n (-1), base = map int [0 ..< n], q = [],
      used = replicate n False, blossom = replicate n False\<rparr>"

definition max_matching_in :: "mode \<Rightarrow> int list list \<Rightarrow> (int list \<times> int) option" where
  "max_matching_in md adj =
     do {
       sr \<leftarrow> drive md adj [0 ..< length adj] (init_state (length adj), 0);
       Some (match (fst sr), snd sr)
     }"

definition max_matching :: "int list list \<Rightarrow> (int list \<times> int) option" where
  "max_matching adj = max_matching_in Python adj"

declare lca_up.simps [code] lca_down.simps [code] mark_path.simps [code] flip.simps [code]
  bfs.simps [code]

subsection \<open>Example graphs\<close>

text \<open>
  The 5-cycle of the source's demo, with the adjacency lists its \<^verbatim>\<open>__main__\<close> block
  builds from the edges 0-1, 1-2, 2-3, 3-4, 4-0, and the same graph under every order of
  the two neighbours of each vertex.
\<close>

definition cycle5 :: "int list list" where
  "cycle5 = [[1, 4], [0, 2], [1, 3], [2, 4], [3, 0]]"

definition cycle5_orders :: "int list list list" where
  "cycle5_orders =
     [[a, b, c, d, e].
        a \<leftarrow> [[1, 4], [4, 1]], b \<leftarrow> [[0, 2], [2, 0]], c \<leftarrow> [[1, 3], [3, 1]],
        d \<leftarrow> [[2, 4], [4, 2]], e \<leftarrow> [[3, 0], [0, 3]]]"

text \<open>The size returned for a graph, and the number of \<open>-1\<close> entries of the returned array.\<close>

definition size_and_unmatched :: "int list list \<Rightarrow> (int \<times> nat) option" where
  "size_and_unmatched adj =
     map_option (\<lambda>r. (snd r, length (filter (\<lambda>x. x = -1) (fst r)))) (max_matching adj)"

text \<open>The graph on 4 vertices whose only edge is 0-1.\<close>

definition single_edge :: "int list list" where
  "single_edge = [[1], [0], [], []]"

text \<open>
  A triangle in which 1 and 2 are matched already: the search from 0 contracts the triangle
  and fails.
\<close>

definition triangle :: "int list list" where
  "triangle = [[1, 2], [0, 2], [0, 1]]"

definition triangle_state :: bstate where
  "triangle_state = (init_state 3)\<lparr>match := [-1, 2, 1]\<rparr>"

definition triangle_final :: bstate where
  "triangle_final =
     \<lparr>match = [-1, 2, 1], p = [-1, 0, 0], base = [0, 0, 0], q = [],
      used = [True, True, True], blossom = [False, True, True]\<rparr>"

section \<open>The matching changes only when a search succeeds\<close>

text \<open>
  \<^verbatim>\<open>match\<close> is written by the flip loop only, which is followed by \<^verbatim>\<open>return True\<close>.
  Neither \<^verbatim>\<open>mark_path\<close> nor the contraction loop touch it.
\<close>

lemma mark_path_match:
  assumes "mark_path s v b x = Some s'"
  shows "match s' = match s"
proof -
  have step: "match sa = match s"
    if IH: "\<And>s v b x y. f s v b x = Some y \<Longrightarrow> match y = match s"
    and body: "idx (base s) v \<bind>
     (\<lambda>bv. if bv \<noteq> b
           then upd (blossom s) bv True \<bind>
                (\<lambda>bl1. idx (match s) v \<bind>
                       (\<lambda>mv. idx (base s) mv \<bind>
                             (\<lambda>bmv. upd bl1 bmv True \<bind>
                                    (\<lambda>bl2. upd (p s) v x \<bind>
  (\<lambda>p'. idx (match s) v \<bind>
        (\<lambda>x'. idx p' x' \<bind>
              (\<lambda>v'. f (s\<lparr>blossom := bl2, p := p'\<rparr>) v' b x')))))))
           else Some s) = Some sa" for f s v b x sa
    using body by (auto simp: bind_eq_Some_conv split: if_splits dest!: IH)
  have "(case (((s, v), b), x) of
          (x, xa) \<Rightarrow> (case x of (x, xa) \<Rightarrow>
             (case x of (x, xa) \<Rightarrow> (\<lambda>s v b x s'. match s' = match s) x xa) xa) xa) s'"
    apply (rule mark_path.raw_induct[where xa = "(((s, v), b), x)" and y = s'
          and P = "\<lambda>s v b x s'. match s' = match s"])
     apply (rule step; assumption)
    using assms apply simp
    done
  then show ?thesis by simp
qed

lemma contract_match: "contract c is s = Some s' \<Longrightarrow> match s' = match s"
proof (induction "is" arbitrary: s)
  case Nil
  then show ?case by simp
next
  case (Cons i "is")
  then show ?case
    by (fastforce simp: bind_eq_Some_conv split: if_splits)
qed

lemma scan_match: "scan md root v us s = Some (False, s') \<Longrightarrow> match s' = match s"
proof (induction us arbitrary: s)
  case Nil
  then show ?case by simp
next
  case (Cons u us)
  show ?case using Cons.prems
    apply (simp only: scan.simps bind_eq_Some_conv)
    apply (elim exE conjE)
    apply (auto simp: bind_eq_Some_conv split: if_splits
        dest!: Cons.IH mark_path_match contract_match)
    done
qed

lemma bfs_match:
  assumes "bfs md adj root s = Some r" and "\<not> fst r"
  shows "match (snd r) = match s"
proof -
  have step: "\<not> fst r \<longrightarrow> match (snd r) = match s"
    if IH: "\<And>md adj root s y. f md adj root s = Some y \<Longrightarrow>
              \<not> fst y \<longrightarrow> match (snd y) = match s"
    and body: "(case q s of [] \<Rightarrow> Some (False, s)
      | v # rest \<Rightarrow>
          idx adj v \<bind>
          (\<lambda>nb. scan md root v nb (s\<lparr>q := rest\<rparr>) \<bind>
                (\<lambda>r. if fst r then Some r else f md adj root (snd r)))) = Some r"
    for f md adj root s r
  proof (cases "q s")
    case Nil
    with body show ?thesis by auto
  next
    case (Cons v rest)
    with body obtain nb r1 where nb: "idx adj v = Some nb"
      and r1: "scan md root v nb (s\<lparr>q := rest\<rparr>) = Some r1"
      and r: "(if fst r1 then Some r1 else f md adj root (snd r1)) = Some r"
      by (auto simp: bind_eq_Some_conv)
    show ?thesis
    proof (cases "fst r1")
      case True
      with r show ?thesis by auto
    next
      case False
      with r have "f md adj root (snd r1) = Some r" by simp
      from IH[OF this] have "\<not> fst r \<longrightarrow> match (snd r) = match (snd r1)" .
      moreover from r1 False have "match (snd r1) = match (s\<lparr>q := rest\<rparr>)"
        by (cases r1) (auto dest: scan_match)
      ultimately show ?thesis by simp
    qed
  qed
  have "\<not> fst r \<longrightarrow> match (snd r) = match s"
    apply (rule bfs.raw_induct[where
          P = "\<lambda>md adj root s r. \<not> fst r \<longrightarrow> match (snd r) = match s"])
     apply (rule step; assumption)
    apply (rule assms(1))
    done
  with assms(2) show ?thesis by simp
qed

text \<open>
  C3. \<^verbatim>\<open>find_path\<close> is atomic on failure: whenever a search returns \<^verbatim>\<open>False\<close>,
  whatever the graph, the root and the arrays it started from, \<^verbatim>\<open>match\<close> is exactly
  what it was when the search was invoked.
\<close>

theorem find_path_failure_atomic:
  "find_path md adj root s = Some (False, s') \<Longrightarrow> match s' = match s"
  by (auto simp: find_path_def Let_def bind_eq_Some_conv dest!: bfs_match)

lemma triangle_run: "find_path Python triangle 0 triangle_state = Some (False, triangle_final)"
  by code_simp

theorem find_path_failure_atomic_witness:
  "find_path Python triangle 0 triangle_state = Some (False, triangle_final)
   \<and> match triangle_final = match triangle_state"
  using find_path_failure_atomic [OF triangle_run] triangle_run by simp

section \<open>The scenarios of the specification\<close>

text \<open>
  C7. On the 5-cycle with edges 0-1, 1-2, 2-3, 3-4, 4-0 and symmetric adjacency lists, in
  each of the 32 possible orders of the neighbours, \<^verbatim>\<open>max_matching\<close> returns size 2 and a
  \<^verbatim>\<open>match\<close> array with exactly one entry \<open>-1\<close>; for the adjacency lists of the source's
  demo the array is \<open>[1, 0, 3, 2, -1]\<close>.
\<close>

theorem cycle5_size_2_one_unmatched:
  "map size_and_unmatched cycle5_orders = replicate 32 (Some (2, 1))
   \<and> cycle5 = hd cycle5_orders
   \<and> max_matching cycle5 = Some ([1, 0, 3, 2, -1], 2)"
  by code_simp

text \<open>
  C8. On the graph with 4 vertices whose only edge is 0-1, \<^verbatim>\<open>max_matching\<close> returns
  size 1 and \<^verbatim>\<open>match\<close> equal to \<open>[1, 0, -1, -1]\<close>.
\<close>

theorem single_edge_result: "max_matching single_edge = Some ([1, 0, -1, -1], 1)"
  by code_simp

end
